theory Spec2Isabelle
  imports Complex_Main
begin

section \<open>The example character controller (src/example/Controller/index.tsx)\<close>

text \<open>
  JavaScript numbers are modelled as real numbers: the development verifies the
  arithmetic of the per-frame callback, not its IEEE rounding, so there is no
  NaN, no signed zero and no infinity in the model.
\<close>

subsection \<open>Data\<close>

text \<open>A \<open>{x, y, z}\<close> object (THREE.Vector3, a rapier vector, a vector prop).\<close>

record vec3 =
  vx :: real
  vy :: real
  vz :: real

text \<open>
  The object returned by \<open>getKeys()\<close>. The callback destructures six names from it;
  \<open>Object.values(keys)\<close> ranges over every entry of the keyboard map, so the entries
  a host maps besides the six are kept in \<open>extra\<close>.
\<close>

record keys =
  forward :: bool
  backward :: bool
  leftward :: bool
  rightward :: bool
  jump :: bool
  run :: bool
  extra :: "bool list"

text \<open>
  The props of the component that the callback reads (\<open>EcctrlProps\<close>, types.ts). Every
  prop is optional: \<open>None\<close> is a prop left \<open>undefined\<close>.
\<close>

record props =
  p_capsuleHalfHeight :: "real option"
  p_capsuleRadius :: "real option"
  p_camTargetPos :: "vec3 option"
  p_camCollision :: "bool option"
  p_turnSpeed :: "real option"
  p_sprintMult :: "real option"
  p_jumpVel :: "real option"
  p_sprintJumpMult :: "real option"
  p_camFollowMult :: "real option"

text \<open>The locals bound by the destructuring of the props, defaults applied.\<close>

record config =
  capsuleHalfHeight :: real
  capsuleRadius :: real
  camTargetPos :: vec3
  camCollision :: bool
  turnSpeed :: real
  sprintMult :: real
  jumpVel :: real
  sprintJumpMult :: real
  camFollowMult :: real

definition orDefault :: "'a option \<Rightarrow> 'a \<Rightarrow> 'a" where
  "orDefault v d = (case v of None \<Rightarrow> d | Some a \<Rightarrow> a)"

definition destructure :: "props \<Rightarrow> config" where
  "destructure p =
     \<lparr> capsuleHalfHeight = orDefault (p_capsuleHalfHeight p) 0.35,
       capsuleRadius = orDefault (p_capsuleRadius p) 0.3,
       camTargetPos = orDefault (p_camTargetPos p) \<lparr> vx = 0, vy = 0, vz = 0 \<rparr>,
       camCollision = orDefault (p_camCollision p) True,
       turnSpeed = orDefault (p_turnSpeed p) 15,
       sprintMult = orDefault (p_sprintMult p) 2,
       jumpVel = orDefault (p_jumpVel p) 4,
       sprintJumpMult = orDefault (p_sprintJumpMult p) 1.2,
       camFollowMult = orDefault (p_camFollowMult p) 11 \<rparr>"

text \<open>The camera pivot (a THREE.Object3D): its position and the yaw of its rotation.\<close>

record pivot =
  pivot_position :: vec3
  pivot_rotation_y :: real

text \<open>The rapier rigid body behind \<open>characterRef.current\<close>.\<close>

record rigid_body =
  translation :: vec3
  linvel :: vec3

subsection \<open>getMovingDirection\<close>

text \<open>
  The declared result is \<open>number | null\<close>; a call that reaches the end of the body
  returns \<open>undefined\<close>, which is a result of its own here.
\<close>

datatype direction = Null | Undefined | Angle real

definition getMovingDirection :: "bool \<Rightarrow> bool \<Rightarrow> bool \<Rightarrow> bool \<Rightarrow> pivot \<Rightarrow> direction" where
  "getMovingDirection fwd bwd lft rgt pv =
     (if \<not> fwd \<and> \<not> bwd \<and> \<not> lft \<and> \<not> rgt then Null
      else if fwd \<and> lft then Angle (pivot_rotation_y pv + pi / 4)
      else if fwd \<and> rgt then Angle (pivot_rotation_y pv - pi / 4)
      else if bwd \<and> lft then Angle (pivot_rotation_y pv - pi / 4 + pi)
      else if bwd \<and> rgt then Angle (pivot_rotation_y pv + pi / 4 + pi)
      else if bwd then Angle (pivot_rotation_y pv + pi)
      else if lft then Angle (pivot_rotation_y pv + pi / 2)
      else if rgt then Angle (pivot_rotation_y pv - pi / 2)
      else if fwd then Angle (pivot_rotation_y pv)
      else Undefined)"

text \<open>
  \<open>modelEuler.y\<close> after the assignment of the callback: the arrow function keeps the
  old value on \<open>null\<close> and stores its argument otherwise (\<open>undefined\<close> included, so the
  field is optional).
\<close>

definition facing :: "direction \<Rightarrow> real option \<Rightarrow> real option" where
  "facing movingDirection modelEuler_y =
     (case movingDirection of
        Null \<Rightarrow> modelEuler_y
      | Undefined \<Rightarrow> None
      | Angle a \<Rightarrow> Some a)"

subsection \<open>Speed and impulse\<close>

definition speed :: real where
  "speed = 150"

definition values_of :: "keys \<Rightarrow> bool list" where
  "values_of k = [forward k, backward k, leftward k, rightward k, jump k, run k] @ extra k"

definition nbOfKeysPressed :: "keys \<Rightarrow> nat" where
  "nbOfKeysPressed k = length (filter (\<lambda>key. key) (values_of k))"

text \<open>The base speed is a parameter here; the callback fixes it to \<open>speed\<close>.\<close>

definition normalizedSpeed :: "real \<Rightarrow> keys \<Rightarrow> real \<Rightarrow> real" where
  "normalizedSpeed base k delta =
     (if nbOfKeysPressed k = 1 then base * delta else sqrt 2 * (base / 2) * delta)"

definition runSpeed :: "real \<Rightarrow> config \<Rightarrow> keys \<Rightarrow> real \<Rightarrow> real" where
  "runSpeed base c k delta =
     (if run k then normalizedSpeed base k delta * sprintMult c else 1)"

definition impulse :: "real \<Rightarrow> config \<Rightarrow> keys \<Rightarrow> real \<Rightarrow> real \<Rightarrow> vec3" where
  "impulse base c k delta linvelY =
     \<lparr> vx = (if leftward k then - runSpeed base c k delta
              else if rightward k then runSpeed base c k delta else 0),
       vy = (if jump k then (if run k then sprintJumpMult c * jumpVel c else jumpVel c)
              else linvelY),
       vz = (if forward k then - runSpeed base c k delta
              else if backward k then runSpeed base c k delta else 0) \<rparr>"

text \<open>The length of the horizontal part of a vector.\<close>

definition planar :: "vec3 \<Rightarrow> real" where
  "planar v = sqrt ((vx v)\<^sup>2 + (vz v)\<^sup>2)"

definition directional :: "keys \<Rightarrow> nat" where
  "directional k = length (filter (\<lambda>key. key) [forward k, backward k, leftward k, rightward k])"

subsection \<open>Camera pivot\<close>

text \<open>The point \<open>pivotPosition.set(...)\<close> stores: the character's position plus the offset.\<close>

definition pivotTarget :: "config \<Rightarrow> vec3 \<Rightarrow> vec3" where
  "pivotTarget c pos =
     \<lparr> vx = vx pos + vx (camTargetPos c),
       vy = vy pos +
            (if vy (camTargetPos c) \<noteq> 0 then vy (camTargetPos c)
             else capsuleHalfHeight c + capsuleRadius c / 2),
       vz = vz pos + vz (camTargetPos c) \<rparr>"

text \<open>\<open>Vector3.lerp(v, alpha)\<close> of three.js: each component moves by \<open>alpha\<close> of the gap.\<close>

definition lerp :: "vec3 \<Rightarrow> vec3 \<Rightarrow> real \<Rightarrow> vec3" where
  "lerp p v alpha =
     \<lparr> vx = vx p + (vx v - vx p) * alpha,
       vy = vy p + (vy v - vy p) * alpha,
       vz = vz p + (vz v - vz p) * alpha \<rparr>"

text \<open>
  The interpolation factor of \<open>pivot.position.lerp\<close>, as the exact value of the
  expression. The double the program computes is this value after rounding (it is
  exactly 1 once the exponential falls below half a unit in the last place of 1), so
  nothing about the rounded factor is derived from this definition.
\<close>

definition followFactor :: "config \<Rightarrow> real \<Rightarrow> real" where
  "followFactor c delta = 1 - exp (- camFollowMult c * delta)"

subsection \<open>The per-frame callback\<close>

text \<open>
  What the callback reads and writes. \<open>'q\<close> is the orientation of the model (a
  THREE.Quaternion) and \<open>'c\<close> the state of the follow camera behind
  \<open>cameraCollisionDetect\<close>; both belong to code outside this file, which enters
  through \<open>host\<close>. \<open>character\<close> is \<open>characterRef.current\<close> and \<open>characterModel\<close> is the
  quaternion of \<open>characterModelRef.current\<close>; \<open>None\<close> is a ref that holds no object.
\<close>

record ('q, 'c) host =
  setFromEuler :: "real option \<Rightarrow> 'q"
  rotateTowards :: "'q \<Rightarrow> 'q \<Rightarrow> real \<Rightarrow> 'q"
  cameraCollisionDetect :: "real \<Rightarrow> 'c \<Rightarrow> 'c"

record ('q, 'c) scene =
  character :: "rigid_body option"
  characterModel :: "'q option"
  currentPos :: vec3
  pivotPosition :: vec3
  modelEuler_y :: "real option"
  modelQuat :: 'q
  pivot :: pivot
  followCam :: 'c
  camera_lookAt :: vec3

text \<open>
  A call of the callback either returns or throws (the TypeError of reading a
  property of \<open>undefined\<close>); both carry the scene as the call left it.
\<close>

datatype 's outcome = Returned 's | Threw 's

definition scene_of :: "'s outcome \<Rightarrow> 's" where
  "scene_of r = (case r of Returned s \<Rightarrow> s | Threw s \<Rightarrow> s)"

definition threw :: "'s outcome \<Rightarrow> bool" where
  "threw r = (case r of Returned s \<Rightarrow> False | Threw s \<Rightarrow> True)"

definition useFrame :: "('q, 'c) host \<Rightarrow> config \<Rightarrow> keys \<Rightarrow> real \<Rightarrow> ('q, 'c) scene
    \<Rightarrow> ('q, 'c) scene outcome" where
  "useFrame h c k delta s =
     (case character s of
        None \<Rightarrow> Returned s
      | Some body \<Rightarrow>
          let s1 = s\<lparr> currentPos := translation body \<rparr>;
              s2 = s1\<lparr> modelEuler_y :=
                     facing (getMovingDirection (forward k) (backward k) (leftward k)
                               (rightward k) (pivot s1)) (modelEuler_y s1) \<rparr>;
              linvelY = vy (linvel body);
              s3 = s2\<lparr> character := Some (body\<lparr> linvel := impulse speed c k delta linvelY \<rparr>) \<rparr>;
              s4 = (if camCollision c
                    then s3\<lparr> followCam := cameraCollisionDetect h delta (followCam s3) \<rparr>
                    else s3);
              s5 = s4\<lparr> modelQuat := setFromEuler h (modelEuler_y s4) \<rparr>
          in (case characterModel s5 of
                None \<Rightarrow> Threw s5
              | Some q \<Rightarrow>
                  let s6 = s5\<lparr> characterModel :=
                                 Some (rotateTowards h q (modelQuat s5) (delta * turnSpeed c)) \<rparr>;
                      s7 = s6\<lparr> pivotPosition := pivotTarget c (currentPos s6) \<rparr>;
                      s8 = s7\<lparr> pivot := (pivot s7)\<lparr> pivot_position :=
                                 lerp (pivot_position (pivot s7)) (pivotPosition s7)
                                   (followFactor c delta) \<rparr> \<rparr>;
                      s9 = s8\<lparr> camera_lookAt := pivot_position (pivot s8) \<rparr>
                  in Returned s9))"

text \<open>
  The velocity a call wrote to the rigid body: none without a body, else the one the body
  holds when the call ends (the call sets it once, by \<open>setLinvel\<close>).
\<close>

definition written :: "('q, 'c) scene \<Rightarrow> ('q, 'c) scene outcome \<Rightarrow> vec3 option" where
  "written s r =
     (case character s of
        None \<Rightarrow> None
      | Some body \<Rightarrow> map_option linvel (character (scene_of r)))"

subsection \<open>The priority table of the specification\<close>

text \<open>
  The nine rows of the table of section 4.1, in their order, each a condition on the
  flags (forward, backward, leftward, rightward) and the facing it gives for the yaw
  \<open>base\<close> of the camera pivot. The first row that matches wins; a combination that no
  row matches would be unhandled.
\<close>

definition rows :: "real \<Rightarrow> ((bool \<times> bool \<times> bool \<times> bool \<Rightarrow> bool) \<times> direction) list" where
  "rows base =
     [ (\<lambda>(f, b, l, r). \<not> f \<and> \<not> b \<and> \<not> l \<and> \<not> r, Null),
       (\<lambda>(f, b, l, r). f \<and> l, Angle (base + pi / 4)),
       (\<lambda>(f, b, l, r). f \<and> r, Angle (base - pi / 4)),
       (\<lambda>(f, b, l, r). b \<and> l, Angle (base - pi / 4 + pi)),
       (\<lambda>(f, b, l, r). b \<and> r, Angle (base + pi / 4 + pi)),
       (\<lambda>(f, b, l, r). b, Angle (base + pi)),
       (\<lambda>(f, b, l, r). l, Angle (base + pi / 2)),
       (\<lambda>(f, b, l, r). r, Angle (base - pi / 2)),
       (\<lambda>(f, b, l, r). f, Angle base) ]"

definition priorityTable :: "real \<Rightarrow> bool \<times> bool \<times> bool \<times> bool \<Rightarrow> direction" where
  "priorityTable base flags =
     (case find (\<lambda>row. fst row flags) (rows base) of
        None \<Rightarrow> Undefined
      | Some row \<Rightarrow> snd row)"

subsection \<open>Concrete inputs\<close>

text \<open>
  Keys, props and scenes on which the callback is evaluated below. The host of these
  scenes keeps an orientation as a yaw angle, turns to the target at once and has no
  follow-camera state.
\<close>

definition noKeys :: keys where
  "noKeys = \<lparr> forward = False, backward = False, leftward = False, rightward = False,
              jump = False, run = False, extra = [] \<rparr>"

definition forwardOnly :: keys where
  "forwardOnly = noKeys\<lparr> forward := True \<rparr>"

definition forwardLeft :: keys where
  "forwardLeft = noKeys\<lparr> forward := True, leftward := True \<rparr>"

definition jumpOnly :: keys where
  "jumpOnly = noKeys\<lparr> jump := True \<rparr>"

definition jumpRun :: keys where
  "jumpRun = noKeys\<lparr> jump := True, run := True \<rparr>"

definition allDirections :: keys where
  "allDirections = noKeys\<lparr> forward := True, backward := True, leftward := True, rightward := True \<rparr>"

definition leftRight :: keys where
  "leftRight = noKeys\<lparr> leftward := True, rightward := True \<rparr>"

definition noProps :: props where
  "noProps = \<lparr> p_capsuleHalfHeight = None, p_capsuleRadius = None, p_camTargetPos = None,
               p_camCollision = None, p_turnSpeed = None, p_sprintMult = None, p_jumpVel = None,
               p_sprintJumpMult = None, p_camFollowMult = None \<rparr>"

definition explicitZero :: props where
  "explicitZero = noProps\<lparr> p_camTargetPos := Some \<lparr> vx = 0, vy = 0, vz = 0 \<rparr> \<rparr>"

definition raised :: props where
  "raised = noProps\<lparr> p_camTargetPos := Some \<lparr> vx = 0, vy = 1, vz = 0 \<rparr> \<rparr>"

definition origin :: vec3 where
  "origin = \<lparr> vx = 0, vy = 0, vz = 0 \<rparr>"

definition yawHost :: "(real, unit) host" where
  "yawHost = \<lparr> setFromEuler = (\<lambda>y. orDefault y 0),
               rotateTowards = (\<lambda>q target step. target),
               cameraCollisionDetect = (\<lambda>delta cam. cam) \<rparr>"

definition atRest :: "(real, unit) scene" where
  "atRest = \<lparr> character = Some \<lparr> translation = origin, linvel = origin \<rparr>,
              characterModel = Some 0,
              currentPos = origin,
              pivotPosition = origin,
              modelEuler_y = Some 0,
              modelQuat = 0,
              pivot = \<lparr> pivot_position = origin, pivot_rotation_y = 0 \<rparr>,
              followCam = (),
              camera_lookAt = origin \<rparr>"

definition falling :: "(real, unit) scene" where
  "falling = atRest\<lparr> character :=
     Some \<lparr> translation = \<lparr> vx = 0, vy = 2, vz = 0 \<rparr>, linvel = \<lparr> vx = 0, vy = - 3, vz = 0 \<rparr> \<rparr> \<rparr>"

definition unmounted :: "(real, unit) scene" where
  "unmounted = atRest\<lparr> character := None, characterModel := None \<rparr>"

definition noModel :: "(real, unit) scene" where
  "noModel = atRest\<lparr> characterModel := None \<rparr>"

section \<open>Properties\<close>

subsection \<open>What a call writes\<close>

lemmas scene_defs =
  noKeys_def noProps_def origin_def yawHost_def atRest_def destructure_def orDefault_def

lemmas frame_defs =
  useFrame_def written_def scene_of_def threw_def Let_def impulse_def runSpeed_def
  normalizedSpeed_def nbOfKeysPressed_def values_of_def directional_def speed_def facing_def
  getMovingDirection_def

lemma useFrame_written:
  "character s = Some body \<Longrightarrow>
   written s (useFrame h c k delta s) = Some (impulse speed c k delta (vy (linvel body)))"
  by (simp add: useFrame_def written_def scene_of_def Let_def split: option.splits)

lemma useFrame_modelEuler_y:
  "character s = Some body \<Longrightarrow>
   modelEuler_y (scene_of (useFrame h c k delta s)) =
     facing (getMovingDirection (forward k) (backward k) (leftward k) (rightward k) (pivot s))
       (modelEuler_y s)"
  by (simp add: useFrame_def scene_of_def Let_def split: option.splits)

lemma useFrame_pivot:
  assumes "character s = Some body" and "characterModel s = Some q"
  shows "pivotPosition (scene_of (useFrame h c k delta s)) = pivotTarget c (translation body)
       \<and> pivot_position (pivot (scene_of (useFrame h c k delta s)))
           = lerp (pivot_position (pivot s)) (pivotTarget c (translation body))
               (followFactor c delta)
       \<and> camera_lookAt (scene_of (useFrame h c k delta s))
           = pivot_position (pivot (scene_of (useFrame h c k delta s)))"
  using assms by (simp add: useFrame_def scene_of_def Let_def)

subsection \<open>Speed\<close>

lemma nbOfKeysPressed_split:
  "nbOfKeysPressed k =
     directional k + (if jump k then 1 else 0) + (if run k then 1 else 0)
       + length (filter (\<lambda>key. key) (extra k))"
  by (simp add: nbOfKeysPressed_def values_of_def directional_def)

lemma planar_axis:
  "directional k = 1 \<Longrightarrow> planar (impulse base c k delta ly) = \<bar>runSpeed base c k delta\<bar>"
  by (auto simp add: directional_def planar_def impulse_def split: if_splits)

lemma planar_diagonal:
  assumes "forward k \<noteq> backward k" and "leftward k \<noteq> rightward k"
  shows "planar (impulse base c k delta ly) = sqrt 2 * \<bar>runSpeed base c k delta\<bar>"
proof -
  have "(vx (impulse base c k delta ly))\<^sup>2 = (runSpeed base c k delta)\<^sup>2"
    using assms by (auto simp add: impulse_def)
  moreover have "(vz (impulse base c k delta ly))\<^sup>2 = (runSpeed base c k delta)\<^sup>2"
    using assms by (auto simp add: impulse_def)
  ultimately have "planar (impulse base c k delta ly) = sqrt (2 * (runSpeed base c k delta)\<^sup>2)"
    by (simp add: planar_def)
  then show ?thesis
    by (simp add: real_sqrt_mult)
qed

subsection \<open>Facing direction\<close>

text \<open>
  Combinations with opposite flags fall under the first row that matches: backward for
  forward with backward, leftward for leftward with rightward, and forward with leftward
  for any combination that holds both.
\<close>

lemma getMovingDirection_opposites:
  "getMovingDirection True True False False pv = Angle (pivot_rotation_y pv + pi)"
  "getMovingDirection False False True True pv = Angle (pivot_rotation_y pv + pi / 2)"
  "getMovingDirection True b True r pv = Angle (pivot_rotation_y pv + pi / 4)"
  by (simp_all add: getMovingDirection_def)

text \<open>
  C1. On each of the 16 combinations of the four directional flags, getMovingDirection
  returns the value the priority table gives (first matching row), it never returns
  undefined, it returns null exactly when no flag is set, and on null the facing angle
  keeps its previous value.
\<close>

theorem getMovingDirection_table:
  "getMovingDirection f b l r pv = priorityTable (pivot_rotation_y pv) (f, b, l, r)
   \<and> getMovingDirection f b l r pv \<noteq> Undefined
   \<and> (getMovingDirection f b l r pv = Null \<longleftrightarrow> \<not> f \<and> \<not> b \<and> \<not> l \<and> \<not> r)
   \<and> facing (getMovingDirection False False False False pv) old = old"
  by (cases f; cases b; cases l; cases r)
     (simp_all add: getMovingDirection_def priorityTable_def rows_def facing_def)

subsection \<open>Horizontal impulse\<close>

text \<open>
  C2. With exactly one directional flag the planar length of the velocity written should
  be speed * delta: z = -2.5 and x = 0 for forward alone at a frame time of 1/60, facing
  the yaw of the camera pivot. On that frame one key is pressed and the callback computes
  the normalized speed 150 * (1/60) = 2.5, but run is not set, so \<open>runSpeed\<close> is the
  constant 1 of its else-branch and the velocity written has z = -1, of planar length 1.
  The x component and the facing angle are as they should be.
\<close>

theorem single_direction_walk:
  "directional forwardOnly = 1 \<and> \<not> run forwardOnly
   \<and> nbOfKeysPressed forwardOnly = 1
   \<and> normalizedSpeed speed forwardOnly (1 / 60) = 2.5
   \<and> runSpeed speed (destructure noProps) forwardOnly (1 / 60) = 1
   \<and> written atRest (useFrame yawHost (destructure noProps) forwardOnly (1 / 60) atRest)
       = Some \<lparr> vx = 0, vy = 0, vz = - 1 \<rparr>
   \<and> planar \<lparr> vx = 0, vy = 0, vz = - 1 \<rparr> = 1
   \<and> planar \<lparr> vx = 0, vy = 0, vz = - 1 \<rparr> \<noteq> speed * (1 / 60)
   \<and> vz \<lparr> vx = 0, vy = 0, vz = - 1 \<rparr> \<noteq> - 2.5
   \<and> modelEuler_y (scene_of (useFrame yawHost (destructure noProps) forwardOnly (1 / 60) atRest))
       = Some (pivot_rotation_y (pivot atRest))"
  by (simp add: scene_defs frame_defs forwardOnly_def planar_def)

text \<open>
  C3. With exactly two orthogonal directional flags the planar length of the velocity
  written should again be speed * delta, 2.5 for forward with leftward at a frame time of
  1/60, on negative x and z components. On that frame two keys are pressed and the
  callback computes the normalized speed sqrt 2 * 75 * (1/60) for each axis, but run is
  not set, so \<open>runSpeed\<close> is the constant 1 and the velocity written has x = z = -1, of
  planar length sqrt 2: neither 2.5 nor the length 1 of a single direction.
\<close>

theorem diagonal_walk:
  "directional forwardLeft = 2 \<and> \<not> run forwardLeft
   \<and> nbOfKeysPressed forwardLeft = 2
   \<and> normalizedSpeed speed forwardLeft (1 / 60) = sqrt 2 * 75 * (1 / 60)
   \<and> runSpeed speed (destructure noProps) forwardLeft (1 / 60) = 1
   \<and> written atRest (useFrame yawHost (destructure noProps) forwardLeft (1 / 60) atRest)
       = Some \<lparr> vx = - 1, vy = 0, vz = - 1 \<rparr>
   \<and> planar \<lparr> vx = - 1, vy = 0, vz = - 1 \<rparr> = sqrt 2
   \<and> planar \<lparr> vx = - 1, vy = 0, vz = - 1 \<rparr> \<noteq> speed * (1 / 60)
   \<and> planar \<lparr> vx = - 1, vy = 0, vz = - 1 \<rparr>
       \<noteq> planar \<lparr> vx = 0, vy = 0, vz = - 1 \<rparr>"
proof -
  have "sqrt 2 \<noteq> 5 / 2"
  proof
    assume a: "sqrt 2 = 5 / 2"
    have "(sqrt 2)\<^sup>2 = 2" by simp
    then have "(5 / 2 :: real)\<^sup>2 = 2" unfolding a .
    then show False by (simp add: power2_eq_square)
  qed
  then show ?thesis
    by (simp add: scene_defs frame_defs forwardLeft_def planar_def)
qed

subsection \<open>Vertical impulse\<close>

text \<open>
  C4. The y component of the velocity written to the rigid body is
  sprintJumpMult * jumpVel when jump and run are set, jumpVel when jump is set and run is
  not, and the vertical velocity the body had when jump is not set.
\<close>

theorem vertical_impulse:
  assumes "character s = Some body"
  shows "\<exists>v. written s (useFrame h c k delta s) = Some v
           \<and> (jump k \<and> run k \<longrightarrow> vy v = sprintJumpMult c * jumpVel c)
           \<and> (jump k \<and> \<not> run k \<longrightarrow> vy v = jumpVel c)
           \<and> (\<not> jump k \<longrightarrow> vy v = vy (linvel body))"
  using useFrame_written [OF assms, of h c k delta] by (simp add: impulse_def)

theorem vertical_impulse_witness:
  "(\<exists>v. written falling (useFrame yawHost (destructure noProps) jumpRun (1 / 60) falling) = Some v
        \<and> vy v = 1.2 * 4)
   \<and> (\<exists>v. written falling (useFrame yawHost (destructure noProps) jumpOnly (1 / 60) falling) = Some v
        \<and> vy v = 4)
   \<and> (\<exists>v. written falling (useFrame yawHost (destructure noProps) noKeys (1 / 60) falling) = Some v
        \<and> vy v = - 3)"
proof -
  let ?body = "\<lparr> translation = \<lparr> vx = 0, vy = 2, vz = 0 \<rparr>, linvel = \<lparr> vx = 0, vy = - 3, vz = 0 \<rparr> \<rparr>"
  have c: "character falling = Some ?body"
    by (simp add: falling_def atRest_def)
  have m: "sprintJumpMult (destructure noProps) = 1.2" "jumpVel (destructure noProps) = 4"
    by (simp_all add: destructure_def noProps_def orDefault_def)
  have k: "jump jumpRun" "run jumpRun" "jump jumpOnly" "\<not> run jumpOnly" "\<not> jump noKeys"
    by (simp_all add: jumpRun_def jumpOnly_def noKeys_def)
  show ?thesis
    using vertical_impulse [OF c, of yawHost "destructure noProps" jumpRun "1 / 60"]
      vertical_impulse [OF c, of yawHost "destructure noProps" jumpOnly "1 / 60"]
      vertical_impulse [OF c, of yawHost "destructure noProps" noKeys "1 / 60"] m k
    by simp
qed

subsection \<open>Opposite flags\<close>

text \<open>
  Against C5 as stated: with all four directional flags set, the velocity written has x = -1 and z = -1:
  neither axis cancels.
\<close>

theorem opposite_flags_counterexample:
  "forward allDirections \<and> backward allDirections \<and> leftward allDirections
   \<and> rightward allDirections
   \<and> written atRest (useFrame yawHost (destructure noProps) allDirections (1 / 60) atRest)
       = Some \<lparr> vx = - 1, vy = 0, vz = - 1 \<rparr>
   \<and> vz \<lparr> vx = - 1, vy = 0, vz = - 1 \<rparr> \<noteq> 0
   \<and> vx \<lparr> vx = - 1, vy = 0, vz = - 1 \<rparr> \<noteq> 0"
  by (simp add: scene_defs frame_defs allDirections_def)

text \<open>
  C5 (amended). With forward and backward both set, the z component of the velocity
  written is minus the speed of the frame (forward is tested first); with leftward and
  rightward both set, the x component is minus the speed of the frame (leftward is tested
  first).
\<close>

theorem opposite_flags_first_wins:
  assumes "character s = Some body"
  shows "\<exists>v. written s (useFrame h c k delta s) = Some v
           \<and> (forward k \<and> backward k \<longrightarrow> vz v = - runSpeed speed c k delta)
           \<and> (leftward k \<and> rightward k \<longrightarrow> vx v = - runSpeed speed c k delta)"
  using useFrame_written [OF assms, of h c k delta] by (simp add: impulse_def)

theorem opposite_flags_first_wins_witness:
  "forward allDirections \<and> backward allDirections \<and> leftward allDirections
   \<and> rightward allDirections
   \<and> (\<exists>v. written atRest (useFrame yawHost (destructure noProps) allDirections (1 / 60) atRest)
             = Some v
          \<and> vz v = - runSpeed speed (destructure noProps) allDirections (1 / 60)
          \<and> vx v = - runSpeed speed (destructure noProps) allDirections (1 / 60))"
proof -
  have c: "character atRest = Some \<lparr> translation = origin, linvel = origin \<rparr>"
    by (simp add: atRest_def)
  have k: "forward allDirections" "backward allDirections" "leftward allDirections"
      "rightward allDirections"
    by (simp_all add: allDirections_def noKeys_def)
  show ?thesis
    using opposite_flags_first_wins [OF c, of yawHost "destructure noProps" allDirections "1 / 60"] k
    by simp
qed

text \<open>
  Against C6 as stated: with leftward and rightward the only keys pressed, the speed of the frame is 1 and the
  velocity written has x = -1, not +1.
\<close>

theorem left_right_counterexample:
  "leftward leftRight \<and> rightward leftRight
   \<and> written atRest (useFrame yawHost (destructure noProps) leftRight (1 / 60) atRest)
       = Some \<lparr> vx = - 1, vy = 0, vz = 0 \<rparr>
   \<and> runSpeed speed (destructure noProps) leftRight (1 / 60) = 1
   \<and> vx \<lparr> vx = - 1, vy = 0, vz = 0 \<rparr> \<noteq> runSpeed speed (destructure noProps) leftRight (1 / 60)"
  by (simp add: scene_defs frame_defs leftRight_def)

text \<open>
  C6 (amended). With leftward and rightward both set, the x component of the velocity
  written to the rigid body is minus the speed of the frame: leftward wins.
\<close>

theorem left_right_leftward_wins:
  assumes "character s = Some body" and "leftward k" and "rightward k"
  shows "\<exists>v. written s (useFrame h c k delta s) = Some v \<and> vx v = - runSpeed speed c k delta"
  using useFrame_written [OF assms(1), of h c k delta] assms(2) by (simp add: impulse_def)

theorem left_right_leftward_wins_witness:
  "leftward leftRight \<and> rightward leftRight
   \<and> (\<exists>v. written atRest (useFrame yawHost (destructure noProps) leftRight (1 / 60) atRest) = Some v
          \<and> vx v = - runSpeed speed (destructure noProps) leftRight (1 / 60))"
proof -
  have c: "character atRest = Some \<lparr> translation = origin, linvel = origin \<rparr>"
    by (simp add: atRest_def)
  have k: "leftward leftRight" "rightward leftRight"
    by (simp_all add: leftRight_def noKeys_def)
  show ?thesis
    using left_right_leftward_wins [OF c k, of yawHost "destructure noProps" "1 / 60"] k
    by simp
qed

subsection \<open>Missing handles\<close>

text \<open>
  Against C7 as stated: with a rigid body and no model node, the call throws after it has written the
  velocity (z = -1 where the body was at rest): the frame is not skipped.
\<close>

theorem missing_model_counterexample:
  "character noModel \<noteq> None \<and> characterModel noModel = None
   \<and> threw (useFrame yawHost (destructure noProps) forwardOnly (1 / 60) noModel)
   \<and> useFrame yawHost (destructure noProps) forwardOnly (1 / 60) noModel \<noteq> Returned noModel
   \<and> written noModel (useFrame yawHost (destructure noProps) forwardOnly (1 / 60) noModel)
       = Some \<lparr> vx = 0, vy = 0, vz = - 1 \<rparr>
   \<and> map_option linvel (character noModel) = Some \<lparr> vx = 0, vy = 0, vz = 0 \<rparr>"
  by (simp add: scene_defs frame_defs noModel_def forwardOnly_def)

text \<open>
  C7 (amended). In a frame in which the rigid-body handle is missing, whatever the
  model node, the call returns with the scene unchanged and writes no velocity.
\<close>

theorem missing_body_skips:
  assumes "character s = None"
  shows "useFrame h c k delta s = Returned s \<and> written s (useFrame h c k delta s) = None"
  using assms by (simp add: useFrame_def written_def)

theorem missing_body_skips_witness:
  "character unmounted = None
   \<and> useFrame yawHost (destructure noProps) forwardOnly (1 / 60) unmounted = Returned unmounted
   \<and> written unmounted (useFrame yawHost (destructure noProps) forwardOnly (1 / 60) unmounted) = None"
proof -
  have c: "character unmounted = None"
    by (simp add: unmounted_def)
  show ?thesis
    using missing_body_skips [OF c, of yawHost "destructure noProps" forwardOnly "1 / 60"] c
    by blast
qed

subsection \<open>Speed without sprint\<close>

text \<open>
  C9. In a frame without the run flag, the x and z components of the velocity written
  are each -1, 0 or 1, at least one is not 0 when a directional flag is set, and they are
  the same for every base speed, every frame time and every state of the other keys.
\<close>

theorem walking_unit_components:
  assumes "character s = Some body" and "\<not> run k"
  shows "\<exists>v. written s (useFrame h c k delta s) = Some v
           \<and> (vx v \<noteq> 0 \<longrightarrow> \<bar>vx v\<bar> = 1) \<and> (vz v \<noteq> 0 \<longrightarrow> \<bar>vz v\<bar> = 1)
           \<and> (1 \<le> directional k \<longrightarrow> vx v \<noteq> 0 \<or> vz v \<noteq> 0)
           \<and> vx v = (if leftward k then - 1 else if rightward k then 1 else 0)
           \<and> vz v = (if forward k then - 1 else if backward k then 1 else 0)
           \<and> (\<forall>base dt ly j e.
                 vx (impulse base c (k\<lparr> jump := j, extra := e \<rparr>) dt ly) = vx v
               \<and> vz (impulse base c (k\<lparr> jump := j, extra := e \<rparr>) dt ly) = vz v)"
proof -
  let ?v = "impulse speed c k delta (vy (linvel body))"
  have w: "written s (useFrame h c k delta s) = Some ?v"
    using assms(1) by (rule useFrame_written)
  have one: "runSpeed base c (k\<lparr> jump := j, extra := e \<rparr>) dt = 1" for base dt j e
    using assms(2) by (simp add: runSpeed_def)
  have x: "vx (impulse base c (k\<lparr> jump := j, extra := e \<rparr>) dt ly)
      = (if leftward k then - 1 else if rightward k then 1 else 0)" for base dt ly j e
    by (simp add: impulse_def one)
  have z: "vz (impulse base c (k\<lparr> jump := j, extra := e \<rparr>) dt ly)
      = (if forward k then - 1 else if backward k then 1 else 0)" for base dt ly j e
    by (simp add: impulse_def one)
  have k: "k\<lparr> jump := jump k, extra := extra k \<rparr> = k"
    by simp
  have vx: "vx ?v = (if leftward k then - 1 else if rightward k then 1 else 0)"
    using x [where base = speed and j = "jump k" and e = "extra k" and dt = delta and ly = "vy (linvel body)"]
    by (simp only: k)
  have vz: "vz ?v = (if forward k then - 1 else if backward k then 1 else 0)"
    using z [where base = speed and j = "jump k" and e = "extra k" and dt = delta and ly = "vy (linvel body)"]
    by (simp only: k)
  have some: "vx ?v \<noteq> 0 \<or> vz ?v \<noteq> 0" if "1 \<le> directional k"
    using that by (auto simp add: vx vz directional_def split: if_splits)
  have unit: "(vx ?v \<noteq> 0 \<longrightarrow> \<bar>vx ?v\<bar> = 1) \<and> (vz ?v \<noteq> 0 \<longrightarrow> \<bar>vz ?v\<bar> = 1)"
    by (simp add: vx vz)
  have indep: "\<forall>base dt ly j e.
                 vx (impulse base c (k\<lparr> jump := j, extra := e \<rparr>) dt ly) = vx ?v
               \<and> vz (impulse base c (k\<lparr> jump := j, extra := e \<rparr>) dt ly) = vz ?v"
    by (simp only: x z vx vz) simp
  from w unit some vx vz indep show ?thesis
    by blast
qed

theorem walking_unit_components_witness:
  "\<not> run forwardLeft \<and> 1 \<le> directional forwardLeft
   \<and> (\<exists>v. written atRest (useFrame yawHost (destructure noProps) forwardLeft (1 / 60) atRest)
             = Some v
          \<and> \<bar>vx v\<bar> = 1 \<and> \<bar>vz v\<bar> = 1 \<and> vx v = - 1 \<and> vz v = - 1
          \<and> vx (impulse 7 (destructure noProps) (forwardLeft\<lparr> jump := True, extra := [True] \<rparr>) 5 0)
              = vx v)"
proof -
  have c: "character atRest = Some \<lparr> translation = origin, linvel = origin \<rparr>"
    by (simp add: atRest_def)
  have r: "\<not> run forwardLeft" "1 \<le> directional forwardLeft" "forward forwardLeft"
      "leftward forwardLeft"
    by (simp_all add: forwardLeft_def noKeys_def directional_def)
  show ?thesis
    using walking_unit_components [OF c r(1), of yawHost "destructure noProps" "1 / 60"] r
    by auto
qed

subsection \<open>Pivot target\<close>

text \<open>
  C10. The height of the pivot target is the character's height plus camTargetPos.y when
  that is not 0; when it is 0, left out or set to 0 in the props alike, it is the
  character's height plus capsuleHalfHeight + capsuleRadius / 2.
\<close>

theorem pivot_target_height:
  assumes "character s = Some body" and "characterModel s = Some q"
  shows "vy (pivotPosition (scene_of (useFrame h (destructure p) k delta s)))
           = vy (translation body)
             + (case p_camTargetPos p of
                  None \<Rightarrow> capsuleHalfHeight (destructure p) + capsuleRadius (destructure p) / 2
                | Some t \<Rightarrow>
                    if vy t \<noteq> 0 then vy t
                    else capsuleHalfHeight (destructure p) + capsuleRadius (destructure p) / 2)"
proof -
  have "pivotPosition (scene_of (useFrame h (destructure p) k delta s))
      = pivotTarget (destructure p) (translation body)"
    using useFrame_pivot [OF assms] by simp
  moreover have "camTargetPos (destructure p)
      = (case p_camTargetPos p of None \<Rightarrow> \<lparr> vx = 0, vy = 0, vz = 0 \<rparr> | Some t \<Rightarrow> t)"
    by (simp add: destructure_def orDefault_def)
  ultimately show ?thesis
    by (simp add: pivotTarget_def split: option.splits)
qed

theorem pivot_target_height_witness:
  "vy (pivotPosition (scene_of (useFrame yawHost (destructure raised) noKeys (1 / 60) falling)))
     = 2 + 1
   \<and> vy (pivotPosition (scene_of (useFrame yawHost (destructure explicitZero) noKeys (1 / 60) falling)))
     = 2 + (0.35 + 0.3 / 2)
   \<and> vy (pivotPosition (scene_of (useFrame yawHost (destructure noProps) noKeys (1 / 60) falling)))
     = 2 + (0.35 + 0.3 / 2)"
proof -
  let ?body = "\<lparr> translation = \<lparr> vx = 0, vy = 2, vz = 0 \<rparr>, linvel = \<lparr> vx = 0, vy = - 3, vz = 0 \<rparr> \<rparr>"
  have c: "character falling = Some ?body" "characterModel falling = Some 0"
    by (simp_all add: falling_def atRest_def)
  have p: "p_camTargetPos raised = Some \<lparr> vx = 0, vy = 1, vz = 0 \<rparr>"
      "p_camTargetPos explicitZero = Some \<lparr> vx = 0, vy = 0, vz = 0 \<rparr>"
      "p_camTargetPos noProps = None"
    by (simp_all add: raised_def explicitZero_def noProps_def)
  have d: "capsuleHalfHeight (destructure explicitZero) = 0.35"
      "capsuleRadius (destructure explicitZero) = 0.3"
      "capsuleHalfHeight (destructure noProps) = 0.35"
      "capsuleRadius (destructure noProps) = 0.3"
    by (simp_all add: destructure_def explicitZero_def noProps_def orDefault_def)
  show ?thesis
    using pivot_target_height [OF c, of yawHost raised noKeys "1 / 60"]
      pivot_target_height [OF c, of yawHost explicitZero noKeys "1 / 60"]
      pivot_target_height [OF c, of yawHost noProps noKeys "1 / 60"] p d
    by simp
qed

end
